theory Spec2Isabelle
  imports Main
begin

section \<open>Python values, exceptions and SQLite cells\<close>

text \<open>
  The bot is Python on top of \<^verbatim>\<open>aiosqlite\<close> and \<^verbatim>\<open>discord.py\<close>. Every exception
  the modelled code can raise is a value of \<open>error\<close>; a handler returns
  \<open>error option\<close> (\<open>None\<close>: it returned normally) together with the state it left.
\<close>

datatype error =
    IndexError | ValueError | TypeError | AttributeError | NameError
  | JSONDecodeError
  | ProgrammingError | OperationalError | IntegrityError
  | HTTPException | Forbidden | NotFound

text \<open>
  \<^verbatim>\<open>discord.Forbidden\<close> and \<^verbatim>\<open>discord.NotFound\<close> are subclasses of
  \<^verbatim>\<open>discord.HTTPException\<close>: \<^verbatim>\<open>except discord.HTTPException\<close> catches the three.
\<close>

definition is_http_exception :: "error \<Rightarrow> bool" where
  "is_http_exception e = (e = HTTPException \<or> e = Forbidden \<or> e = NotFound)"

text \<open>
  A cell of a table. \<open>SJson ids\<close> is a TEXT cell that holds \<^verbatim>\<open>json.dumps(ids)\<close> for a
  list of role ids, kept decoded (the two columns \<^verbatim>\<open>default_staff_roles\<close> and
  \<^verbatim>\<open>specific_staff_roles\<close> are written that way); \<open>SText\<close> is any other text. REAL and
  BLOB cells are not modelled: the program binds only \<^verbatim>\<open>None\<close>, integers and strings.
  Strings are byte strings: names are taken to be ASCII.
\<close>

datatype sqlval = SNull | SInt int | SText string | SJson "int list"

text \<open>Python truthiness of a cell read from a row (\<^verbatim>\<open>if row['col']:\<close>).\<close>

fun truthy :: "sqlval \<Rightarrow> bool" where
  "truthy SNull = False"
| "truthy (SInt n) = (n \<noteq> 0)"
| "truthy (SText s) = (s \<noteq> [])"
| "truthy (SJson ids) = True"

text \<open>
  A row maps column names to cells (\<^verbatim>\<open>row['col']\<close>). Rows come from
  \<^verbatim>\<open>db.row_factory = aiosqlite.Row\<close>, which is \<^verbatim>\<open>sqlite3.Row\<close>: it has \<^verbatim>\<open>keys()\<close>,
  \<^verbatim>\<open>len()\<close> and item access, and no \<^verbatim>\<open>get\<close> method. A call \<^verbatim>\<open>row.get(key, default)\<close>
  therefore raises \<^verbatim>\<open>AttributeError\<close>, whatever the key and the default.
\<close>

type_synonym row = "string \<Rightarrow> sqlval"

definition row_get :: "row \<Rightarrow> string \<Rightarrow> sqlval \<Rightarrow> error + sqlval" where
  "row_get r key dflt = Inl AttributeError"

text \<open>The values a caller passes as keyword arguments or SQL parameters.\<close>

datatype pyval = PNone | PInt int | PStr string | PJsonStr "int list" | PList "int list"

text \<open>
  \<open>PJsonStr ids\<close> is the string \<^verbatim>\<open>json.dumps(ids)\<close>, \<open>PList ids\<close> the list itself, which
  \<^verbatim>\<open>update_guild_config\<close> turns into that string before binding (lines 77-79).
\<close>

fun to_sql :: "pyval \<Rightarrow> sqlval" where
  "to_sql PNone = SNull"
| "to_sql (PInt n) = SInt n"
| "to_sql (PStr s) = SText s"
| "to_sql (PJsonStr ids) = SJson ids"
| "to_sql (PList ids) = SJson ids"

section \<open>Strings\<close>

text \<open>\<^verbatim>\<open>xs[i]\<close> for \<open>i \<ge> 0\<close>: \<^verbatim>\<open>IndexError\<close> out of range.\<close>

definition index :: "'a list \<Rightarrow> nat \<Rightarrow> error + 'a" where
  "index xs i = (if i < length xs then Inr (xs ! i) else Inl IndexError)"

text \<open>\<^verbatim>\<open>s.split(d)\<close> for a one-character separator: never the empty list.\<close>

fun push_char :: "char \<Rightarrow> string list \<Rightarrow> string list" where
  "push_char c [] = [[c]]"
| "push_char c (p # ps) = (c # p) # ps"

fun split_on :: "char \<Rightarrow> string \<Rightarrow> string list" where
  "split_on d [] = [[]]"
| "split_on d (c # cs) = (if c = d then [] # split_on d cs else push_char c (split_on d cs))"

definition is_digit :: "char \<Rightarrow> bool" where
  "is_digit c = (48 \<le> (of_char c :: nat) \<and> (of_char c :: nat) \<le> 57)"

definition digit_value :: "char \<Rightarrow> nat" where
  "digit_value c = of_char c - 48"

text \<open>
  The characters \<^verbatim>\<open>int()\<close> skips around the digits of an ASCII string (and SQLite
  before a number in a text): the space and the bytes 9 to 13.
\<close>

definition is_space :: "char \<Rightarrow> bool" where
  "is_space c = ((of_char c :: nat) = 32 \<or> (9 \<le> (of_char c :: nat) \<and> (of_char c :: nat) \<le> 13))"

definition strip :: "string \<Rightarrow> string" where
  "strip s = rev (dropWhile is_space (rev (dropWhile is_space s)))"

text \<open>
  The digits of a decimal literal as \<^verbatim>\<open>int()\<close> accepts them: at least one digit, and
  single underscores between digits only. The flag says that the previous character was
  a digit.
\<close>

fun valid_digits :: "bool \<Rightarrow> string \<Rightarrow> bool" where
  "valid_digits p [] = p"
| "valid_digits p (c # cs) =
     (if is_digit c then valid_digits True cs
      else (c = CHR ''_'' \<and> p \<and> valid_digits False cs))"

definition digits_to_nat :: "string \<Rightarrow> nat" where
  "digits_to_nat s = foldl (\<lambda>acc c. acc * 10 + digit_value c) 0 (filter is_digit s)"

text \<open>
  \<^verbatim>\<open>int(s)\<close> on a string: surrounding whitespace, an optional sign, decimal digits;
  \<^verbatim>\<open>ValueError\<close> otherwise. (Digits outside ASCII, which Python also accepts, are outside
  the byte strings of this development.)
\<close>

definition py_int :: "string \<Rightarrow> error + int" where
  "py_int s =
     (case strip s of
        [] \<Rightarrow> Inl ValueError
      | c # cs \<Rightarrow>
          (let body = (if c = CHR ''-'' \<or> c = CHR ''+'' then cs else c # cs) in
           if valid_digits False body
           then Inr (if c = CHR ''-'' then - int (digits_to_nat body) else int (digits_to_nat body))
           else Inl ValueError))"

text \<open>\<^verbatim>\<open>name.lower().replace(" ", "-")\<close> on ASCII names.\<close>

definition lower_char :: "char \<Rightarrow> char" where
  "lower_char c =
     (if 65 \<le> (of_char c :: nat) \<and> (of_char c :: nat) \<le> 90 then char_of ((of_char c :: nat) + 32) else c)"

definition normalize_name :: "string \<Rightarrow> string" where
  "normalize_name name = map (\<lambda>c. if c = CHR '' '' then CHR ''-'' else c) (map lower_char name)"

section \<open>The database (utils/db_manager.py)\<close>

text \<open>
  The three tables of \<^verbatim>\<open>initialize_database\<close>. \<^verbatim>\<open>guild_configs\<close> has the integer
  primary key \<^verbatim>\<open>guild_id\<close>, so it is a map from that key; the other two are lists in
  rowid order. \<open>type_seq\<close> and \<open>ticket_seq\<close> are the AUTOINCREMENT counters.
\<close>

record database =
  guild_configs :: "int \<Rightarrow> row option"
  ticket_types :: "row list"
  tickets :: "row list"
  type_seq :: int
  ticket_seq :: int

definition guild_config_columns :: "string list" where
  "guild_config_columns =
     [''panel_channel_id'', ''panel_message_id'', ''ticket_channel_category_id'',
      ''archive_channel_category_id'', ''transcript_channel_id'', ''log_channel_id'',
      ''default_staff_roles'', ''ticket_naming_format'', ''ticket_limit_per_user'',
      ''allow_user_close'', ''ticket_counter'']"

text \<open>The row an INSERT creates from the column defaults of the schema.\<close>

definition guild_config_defaults :: "int \<Rightarrow> row" where
  "guild_config_defaults gid =
     (\<lambda>c. SNull)
       (''guild_id'' := SInt gid,
        ''ticket_naming_format'' := SText ''ticket-{user_short}-{id}'',
        ''ticket_limit_per_user'' := SInt 1,
        ''allow_user_close'' := SInt 1,
        ''ticket_counter'' := SInt 0)"

definition get_guild_config :: "database \<Rightarrow> int \<Rightarrow> row option" where
  "get_guild_config d gid = guild_configs d gid"

text \<open>Assigning parameters to columns, left to right.\<close>

fun assign :: "(string \<times> sqlval) list \<Rightarrow> row \<Rightarrow> row" where
  "assign [] r = r"
| "assign ((k, v) # kvs) r = assign kvs (r(k := v))"

subsection \<open>\<^verbatim>\<open>update_guild_config\<close>\<close>

text \<open>
  The two statements \<^verbatim>\<open>update_guild_config\<close> builds, by their column lists.
  \<open>Upsert cols sets\<close> is
  \<^verbatim>\<open>INSERT INTO guild_configs (guild_id, cols) VALUES (?, ..) ON CONFLICT(guild_id) DO UPDATE SET f = ?, ..\<close>
  with \<open>length cols + 1\<close> placeholders in VALUES and one per column of \<open>sets\<close> in SET.
  \<open>Insert_or_replace cols\<close> is
  \<^verbatim>\<open>INSERT OR REPLACE INTO guild_configs (guild_id, cols) VALUES (?, ?, ..)\<close>.
\<close>

datatype statement = Upsert "string list" "string list" | Insert_or_replace "string list"

fun placeholders :: "statement \<Rightarrow> nat" where
  "placeholders (Upsert cols sets) = (length cols + 1) + length sets"
| "placeholders (Insert_or_replace cols) = 1 + length cols"

fun statement_columns :: "statement \<Rightarrow> string list" where
  "statement_columns (Upsert cols sets) = cols @ sets"
| "statement_columns (Insert_or_replace cols) = cols"

text \<open>
  What the statement does once prepared and bound. REPLACE deletes the conflicting row
  and inserts a new one: the columns the statement does not list take their defaults.
\<close>

fun run_statement :: "statement \<Rightarrow> int \<Rightarrow> sqlval list \<Rightarrow> database \<Rightarrow> database" where
  "run_statement (Upsert cols sets) gid ps d =
     (case guild_configs d gid of
        None \<Rightarrow>
          d\<lparr>guild_configs := (guild_configs d)
               (gid \<mapsto> assign (zip cols (take (length cols) ps)) (guild_config_defaults gid))\<rparr>
      | Some r \<Rightarrow>
          d\<lparr>guild_configs := (guild_configs d)
               (gid \<mapsto> assign (zip sets (drop (length cols) ps)) r)\<rparr>)"
| "run_statement (Insert_or_replace cols) gid ps d =
     d\<lparr>guild_configs := (guild_configs d)
          (gid \<mapsto> assign (zip cols ps) (guild_config_defaults gid))\<rparr>"

text \<open>
  \<^verbatim>\<open>db.execute(sql, parameters)\<close>: the statement is prepared (a syntax error for an empty
  column list, an unknown column: \<^verbatim>\<open>OperationalError\<close>), then the parameters are bound, and
  \<^verbatim>\<open>sqlite3\<close> raises \<^verbatim>\<open>ProgrammingError\<close> (``Incorrect number of bindings supplied'')
  unless the sequence has exactly as many values as the statement has placeholders.
  The first parameter is the guild id.
\<close>

definition execute :: "database \<Rightarrow> statement \<Rightarrow> sqlval list \<Rightarrow> error + database" where
  "execute d stmt params =
     (if statement_columns stmt = [] then Inl OperationalError
      else if \<not> list_all (\<lambda>c. c \<in> set guild_config_columns) (statement_columns stmt)
      then Inl OperationalError
      else if length params \<noteq> placeholders stmt then Inl ProgrammingError
      else (case params of
              SInt gid # ps \<Rightarrow> Inr (run_statement stmt gid ps d)
            | _ \<Rightarrow> Inl IntegrityError))"

text \<open>
  \<^verbatim>\<open>update_guild_config(guild_id, **kwargs)\<close>, lines 74-107. The first \<^verbatim>\<open>execute\<close>
  gets \<^verbatim>\<open>insert_values + update_values\<close>, the second the guild id and the values. An
  exception leaves the \<^verbatim>\<open>async with\<close> block before \<^verbatim>\<open>commit\<close>: nothing is written.
\<close>

definition update_guild_config ::
  "database \<Rightarrow> int \<Rightarrow> (string \<times> pyval) list \<Rightarrow> error option \<times> database" where
  "update_guild_config d guild_id kwargs =
     (let columns = map fst kwargs;
          vals = map (to_sql \<circ> snd) kwargs;
          insert_values = SInt guild_id # vals;
          update_values = vals @ [SInt guild_id]
      in case execute d (Upsert columns columns) (insert_values @ update_values) of
           Inl e \<Rightarrow> (Some e, d)
         | Inr d1 \<Rightarrow>
             (case execute d1 (Insert_or_replace columns) (SInt guild_id # vals) of
                Inl e \<Rightarrow> (Some e, d)
              | Inr d2 \<Rightarrow> (None, d2)))"

subsection \<open>\<^verbatim>\<open>get_and_increment_ticket_counter\<close>\<close>

text \<open>
  \<^verbatim>\<open>ticket_counter + 1\<close> as SQLite computes it: NULL stays NULL, an INTEGER is
  incremented, a TEXT cell counts as the integer literal it starts with (0 when there
  is none). INTEGER is unbounded here (SQLite's is 64-bit), and REAL results are not
  modelled.
\<close>

definition text_to_int :: "string \<Rightarrow> int" where
  "text_to_int s =
     (let t = dropWhile is_space s;
          signed = (t \<noteq> [] \<and> (hd t = CHR ''-'' \<or> hd t = CHR ''+''));
          ds = takeWhile is_digit (if signed then tl t else t)
      in if t \<noteq> [] \<and> hd t = CHR ''-'' then - int (digits_to_nat ds) else int (digits_to_nat ds))"

fun sql_add_one :: "sqlval \<Rightarrow> sqlval" where
  "sql_add_one SNull = SNull"
| "sql_add_one (SInt n) = SInt (n + 1)"
| "sql_add_one (SText s) = SInt (text_to_int s + 1)"
| "sql_add_one (SJson ids) = SInt 1"

text \<open>
  \<^verbatim>\<open>INSERT OR IGNORE INTO guild_configs (guild_id, ticket_counter) VALUES (?, 0)\<close> and
  \<^verbatim>\<open>UPDATE guild_configs SET ticket_counter = ticket_counter + 1 WHERE guild_id = ?\<close>,
  each followed by its \<^verbatim>\<open>commit\<close>.
\<close>

definition insert_or_ignore_config :: "database \<Rightarrow> int \<Rightarrow> database" where
  "insert_or_ignore_config d gid =
     (case guild_configs d gid of
        None \<Rightarrow> d\<lparr>guild_configs := (guild_configs d)(gid \<mapsto> guild_config_defaults gid)\<rparr>
      | Some r \<Rightarrow> d)"

definition bump_counter :: "database \<Rightarrow> int \<Rightarrow> database" where
  "bump_counter d gid =
     (case guild_configs d gid of
        None \<Rightarrow> d
      | Some r \<Rightarrow>
          d\<lparr>guild_configs := (guild_configs d)
               (gid \<mapsto> r(''ticket_counter'' := sql_add_one (r ''ticket_counter'')))\<rparr>)"

text \<open>The final SELECT: \<^verbatim>\<open>row[0] if row else 1\<close>.\<close>

definition read_counter :: "database \<Rightarrow> int \<Rightarrow> sqlval" where
  "read_counter d gid = (case guild_configs d gid of None \<Rightarrow> SInt 1 | Some r \<Rightarrow> r ''ticket_counter'')"

text \<open>One call, run from its first statement to its \<^verbatim>\<open>return\<close> with nothing in between.\<close>

definition get_and_increment_ticket_counter :: "database \<Rightarrow> int \<Rightarrow> sqlval \<times> database" where
  "get_and_increment_ticket_counter d guild_id =
     (let d1 = (case guild_configs d guild_id of
                  None \<Rightarrow> insert_or_ignore_config d guild_id
                | Some r \<Rightarrow> d);
          d2 = bump_counter d1 guild_id
      in (read_counter d2 guild_id, d2))"

text \<open>
  The same call as the event loop runs it. Every \<^verbatim>\<open>await\<close> hands control back to the
  loop, so another coroutine (another ticket request, on a connection of its own) can
  run between two statements of this one. A statement with its commit is one atomic
  step of the database; the program counter says which statement the call executes
  next: the first SELECT, the INSERT OR IGNORE, the UPDATE, the last SELECT.
\<close>

datatype counter_pc = At_select | At_insert | At_update | At_read | Returned sqlval

fun counter_step :: "int \<Rightarrow> database \<Rightarrow> counter_pc \<Rightarrow> database \<times> counter_pc" where
  "counter_step gid d At_select =
     (d, case guild_configs d gid of None \<Rightarrow> At_insert | Some r \<Rightarrow> At_update)"
| "counter_step gid d At_insert = (insert_or_ignore_config d gid, At_update)"
| "counter_step gid d At_update = (bump_counter d gid, At_read)"
| "counter_step gid d At_read = (d, Returned (read_counter d gid))"
| "counter_step gid d (Returned v) = (d, Returned v)"

text \<open>
  A schedule is the list of the calls that take the next step, by position in the list
  of program counters; all calls are for the same guild.
\<close>

fun interleave :: "int \<Rightarrow> nat list \<Rightarrow> database \<times> counter_pc list \<Rightarrow> database \<times> counter_pc list" where
  "interleave gid [] s = s"
| "interleave gid (t # ts) (d, pcs) =
     (if t < length pcs
      then interleave gid ts (fst (counter_step gid d (pcs ! t)),
                              pcs[t := snd (counter_step gid d (pcs ! t))])
      else interleave gid ts (d, pcs))"

subsection \<open>Ticket types\<close>

definition opt_text :: "string option \<Rightarrow> sqlval" where
  "opt_text x = (case x of None \<Rightarrow> SNull | Some s \<Rightarrow> SText s)"

definition type_key_matches :: "int \<Rightarrow> string \<Rightarrow> row \<Rightarrow> bool" where
  "type_key_matches gid name r = (r ''guild_id'' = SInt gid \<and> r ''name'' = SText name)"

text \<open>
  \<^verbatim>\<open>add_ticket_type\<close>, lines 126-137: the name is normalized, the INSERT fails on the
  UNIQUE (guild_id, name) constraint with \<^verbatim>\<open>IntegrityError\<close>, which is caught.
  (\<^verbatim>\<open>display_name\<close> is a string: the NOT NULL constraint cannot fail. Foreign keys are
  not enforced: no \<^verbatim>\<open>PRAGMA foreign_keys\<close> is issued.)
\<close>

definition add_ticket_type ::
  "database \<Rightarrow> int \<Rightarrow> string \<Rightarrow> string \<Rightarrow> string option \<Rightarrow> string option \<Rightarrow> string
     \<Rightarrow> string option \<Rightarrow> int list option \<Rightarrow> bool \<times> database" where
  "add_ticket_type d guild_id name display_name description emoji button_style
       welcome_message specific_staff_roles =
     (let roles_json = (case specific_staff_roles of
                          None \<Rightarrow> SNull
                        | Some ids \<Rightarrow> if ids = [] then SNull else SJson ids);
          key = normalize_name name
      in if list_ex (type_key_matches guild_id key) (ticket_types d) then (False, d)
         else (True,
               d\<lparr>ticket_types := ticket_types d @
                    [(\<lambda>c. SNull)
                       (''type_id'' := SInt (type_seq d + 1),
                        ''guild_id'' := SInt guild_id,
                        ''name'' := SText key,
                        ''display_name'' := SText display_name,
                        ''description'' := opt_text description,
                        ''emoji'' := opt_text emoji,
                        ''button_style'' := SText button_style,
                        ''welcome_message'' := opt_text welcome_message,
                        ''specific_staff_roles'' := roles_json)],
                 type_seq := type_seq d + 1\<rparr>))"

text \<open>\<^verbatim>\<open>get_ticket_type_by_name\<close>, lines 145-149: the name is compared as given.\<close>

definition get_ticket_type_by_name :: "database \<Rightarrow> int \<Rightarrow> string \<Rightarrow> row option" where
  "get_ticket_type_by_name d guild_id name = find (type_key_matches guild_id name) (ticket_types d)"

text \<open>\<^verbatim>\<open>remove_ticket_type\<close>, lines 151-155: \<^verbatim>\<open>cursor.rowcount > 0\<close>.\<close>

definition remove_ticket_type :: "database \<Rightarrow> int \<Rightarrow> string \<Rightarrow> bool \<times> database" where
  "remove_ticket_type d guild_id name =
     (list_ex (type_key_matches guild_id name) (ticket_types d),
      d\<lparr>ticket_types := filter (\<lambda>r. \<not> type_key_matches guild_id name r) (ticket_types d)\<rparr>)"

subsection \<open>Tickets\<close>

text \<open>
  \<^verbatim>\<open>create_ticket\<close>, lines 158-164. \<^verbatim>\<open>channel_id\<close> is UNIQUE and
  \<^verbatim>\<open>ticket_display_id\<close> NOT NULL: the INSERT raises \<^verbatim>\<open>IntegrityError\<close> otherwise.
  The display id is what the counter returned; \<open>now\<close> is the timestamp as stored.
\<close>

definition create_ticket ::
  "database \<Rightarrow> string \<Rightarrow> int \<Rightarrow> int \<Rightarrow> int \<Rightarrow> string \<Rightarrow> sqlval \<Rightarrow> error option \<times> database" where
  "create_ticket d now guild_id user_id channel_id ticket_type_name ticket_display_id =
     (if ticket_display_id = SNull \<or> list_ex (\<lambda>r. r ''channel_id'' = SInt channel_id) (tickets d)
      then (Some IntegrityError, d)
      else (None,
            d\<lparr>tickets := tickets d @
                 [(\<lambda>c. SNull)
                    (''ticket_db_id'' := SInt (ticket_seq d + 1),
                     ''guild_id'' := SInt guild_id,
                     ''ticket_display_id'' := ticket_display_id,
                     ''user_id'' := SInt user_id,
                     ''channel_id'' := SInt channel_id,
                     ''ticket_type_name'' := SText ticket_type_name,
                     ''status'' := SText ''open'',
                     ''created_at'' := SText now)],
              ticket_seq := ticket_seq d + 1\<rparr>))"

definition get_ticket_by_channel :: "database \<Rightarrow> int \<Rightarrow> row option" where
  "get_ticket_by_channel d channel_id = find (\<lambda>r. r ''channel_id'' = SInt channel_id) (tickets d)"

text \<open>SQL \<^verbatim>\<open>a != b\<close> as a WHERE condition: a NULL operand makes it fail.\<close>

definition sql_ne :: "sqlval \<Rightarrow> sqlval \<Rightarrow> bool" where
  "sql_ne a b = (a \<noteq> SNull \<and> b \<noteq> SNull \<and> a \<noteq> b)"

definition get_open_tickets_by_user :: "database \<Rightarrow> int \<Rightarrow> int \<Rightarrow> row list" where
  "get_open_tickets_by_user d guild_id user_id =
     filter (\<lambda>r. r ''guild_id'' = SInt guild_id \<and> r ''user_id'' = SInt user_id
                  \<and> sql_ne (r ''status'') (SText ''closed'')) (tickets d)"

text \<open>
  \<^verbatim>\<open>update_ticket(channel_id, **kwargs)\<close>, lines 178-183. The keyword arguments name
  columns that carry no constraint, which is what every caller passes; with none of
  them the statement is \<^verbatim>\<open>UPDATE tickets SET  WHERE ..\<close>, a syntax error.
\<close>

datatype ticket_column =
  Status | Claimed_by_staff_id | Closed_by_user_id | Closed_at | Close_reason | Transcript_message_id

fun column_name :: "ticket_column \<Rightarrow> string" where
  "column_name Status = ''status''"
| "column_name Claimed_by_staff_id = ''claimed_by_staff_id''"
| "column_name Closed_by_user_id = ''closed_by_user_id''"
| "column_name Closed_at = ''closed_at''"
| "column_name Close_reason = ''close_reason''"
| "column_name Transcript_message_id = ''transcript_message_id''"

definition update_ticket ::
  "database \<Rightarrow> int \<Rightarrow> (ticket_column \<times> sqlval) list \<Rightarrow> error option \<times> database" where
  "update_ticket d channel_id kwargs =
     (if kwargs = [] then (Some OperationalError, d)
      else (None,
            d\<lparr>tickets :=
                 map (\<lambda>r. if r ''channel_id'' = SInt channel_id
                           then assign (map (\<lambda>(k, v). (column_name k, v)) kwargs) r else r)
                     (tickets d)\<rparr>))"

section \<open>The platform (discord.py)\<close>

text \<open>
  A guild as the handlers read it: its id, the ids of its live roles (\<^verbatim>\<open>get_role\<close>),
  its channels (\<^verbatim>\<open>get_channel\<close>) and its members (\<^verbatim>\<open>get_member\<close>). A role is known by
  its id; the default role \<^verbatim>\<open>@everyone\<close> has the id of the guild.
\<close>

datatype channel_kind = Category_channel | Text_channel

record guild =
  g_id :: int
  g_roles :: "int list"
  g_channels :: "int \<Rightarrow> channel_kind option"
  g_members :: "int list"

definition default_role :: "guild \<Rightarrow> int" where
  "default_role g = g_id g"

definition get_role :: "guild \<Rightarrow> int \<Rightarrow> int option" where
  "get_role g role_id = (if role_id \<in> set (g_roles g) then Some role_id else None)"

text \<open>\<^verbatim>\<open>guild.get_channel(x)\<close> for a value read from a row: a lookup by integer id.\<close>

fun get_channel :: "guild \<Rightarrow> sqlval \<Rightarrow> (int \<times> channel_kind) option" where
  "get_channel g (SInt cid) = map_option (Pair cid) (g_channels g cid)"
| "get_channel g v = None"

record interaction =
  i_is_component :: bool
  i_custom_id :: "string option"
  i_guild :: guild
  i_channel_id :: int
  i_user_id :: int
  i_user_roles :: "int list"

text \<open>
  \<open>i_custom_id\<close> is \<open>None\<close> when \<^verbatim>\<open>interaction.data\<close> is empty or has no
  \<^verbatim>\<open>custom_id\<close>; \<^verbatim>\<open>interaction.guild_id\<close> is \<open>g_id (i_guild ia)\<close>.

  What a handler does to the outside is appended to a log: its answers to the requester
  and its successful calls on channels. A message is its literal text, or the template
  of an f-string with the values it is filled with.
\<close>

datatype message = Text string | Formatted string "sqlval list"

datatype permission_change = Remove_overwrite | Read_only

datatype action =
    Defer
  | Followup_send message
  | Send_message message
  | Send_modal int
  | Create_text_channel int
  | Channel_send int message
  | Channel_edit int "int option"
  | Set_permissions int int permission_change

record world =
  db :: database
  log :: "action list"

definition emit :: "action \<Rightarrow> world \<Rightarrow> world" where
  "emit a w = w\<lparr>log := log w @ [a]\<rparr>"

text \<open>
  What the platform answers to the calls that can fail, and the clock. Answering the
  requester is taken to succeed.
\<close>

record env =
  now :: string
  create_text_channel_result :: "error + int"
  history_result :: "error option"
  fetch_user_result :: "error option"
  transcript_send_result :: "error + string"
  notice_send_result :: "error option"
  channel_edit_result :: "error option"
  set_permissions_result :: "error option"
  ticket_cog_loaded :: bool

section \<open>Staff roles (cogs/ticket_cog.py, lines 18-39)\<close>

text \<open>
  \<^verbatim>\<open>json.loads\<close> belongs to the standard library. What it makes of a text is the
  parameter \<open>loads\<close> of everything below, and the decoded document is kept as the loop
  \<^verbatim>\<open>for role_id in role_ids: role = guild.get_role(role_id)\<close> observes it: a document
  that cannot be iterated (a number, \<^verbatim>\<open>true\<close>, \<^verbatim>\<open>null\<close>), or its items in order
  (the elements of a list, the characters of a string, the keys of an object). An item
  is known by what the dictionary lookup of \<^verbatim>\<open>get_role\<close> does with it: it equals an
  integer (an integer, or a boolean or a float equal to one), it is another hashable
  value, or it is unhashable (a list, an object) and the lookup raises \<^verbatim>\<open>TypeError\<close>.
\<close>

datatype pykey = Key_int int | Key_other | Unhashable

datatype pyjson = Not_iterable | Items "pykey list"

text \<open>
  \<^verbatim>\<open>json.loads(cell)\<close>. A \<open>SJson ids\<close> cell holds \<^verbatim>\<open>json.dumps(ids)\<close>, which decodes
  to the list of these integers; any other text is decoded by \<open>loads\<close>; a cell that is
  not text raises \<^verbatim>\<open>TypeError\<close>.
\<close>

fun json_loads :: "(string \<Rightarrow> error + pyjson) \<Rightarrow> sqlval \<Rightarrow> error + pyjson" where
  "json_loads loads (SJson ids) = Inr (Items (map Key_int ids))"
| "json_loads loads (SText s) = loads s"
| "json_loads loads (SInt n) = Inl TypeError"
| "json_loads loads SNull = Inl TypeError"

text \<open>The loop over the items: the roles found, in order.\<close>

fun collect_roles :: "guild \<Rightarrow> pykey list \<Rightarrow> error + int list" where
  "collect_roles g [] = Inr []"
| "collect_roles g (Unhashable # ks) = Inl TypeError"
| "collect_roles g (Key_other # ks) = collect_roles g ks"
| "collect_roles g (Key_int n # ks) =
     (case collect_roles g ks of
        Inl e \<Rightarrow> Inl e
      | Inr roles \<Rightarrow> Inr (case get_role g n of None \<Rightarrow> roles | Some role \<Rightarrow> role # roles))"

text \<open>
  \<^verbatim>\<open>if cell: for role_id in json.loads(cell): role = guild.get_role(role_id); if role: roles.append(role)\<close>
\<close>

definition roles_of_cell :: "(string \<Rightarrow> error + pyjson) \<Rightarrow> guild \<Rightarrow> sqlval \<Rightarrow> error + int list" where
  "roles_of_cell loads g cell =
     (if truthy cell
      then (case json_loads loads cell of
              Inl e \<Rightarrow> Inl e
            | Inr Not_iterable \<Rightarrow> Inl TypeError
            | Inr (Items ks) \<Rightarrow> collect_roles g ks)
      else Inr [])"

text \<open>
  The type name is a string of the button id or the \<^verbatim>\<open>ticket_type_name\<close> cell of a
  ticket; a cell that is not text names no type.
\<close>

fun lookup_type :: "database \<Rightarrow> int \<Rightarrow> sqlval \<Rightarrow> row option" where
  "lookup_type d gid (SText name) = get_ticket_type_by_name d gid name"
| "lookup_type d gid v = None"

text \<open>Lines 20-27, the list \<^verbatim>\<open>specific_roles\<close>, and lines 33-38, the list \<^verbatim>\<open>default_roles\<close>.\<close>

definition specific_roles :: "(string \<Rightarrow> error + pyjson) \<Rightarrow> database \<Rightarrow> guild \<Rightarrow> sqlval \<Rightarrow> error + int list" where
  "specific_roles loads d g ticket_type_name =
     (case lookup_type d (g_id g) ticket_type_name of
        None \<Rightarrow> Inr []
      | Some ticket_type_db \<Rightarrow> roles_of_cell loads g (ticket_type_db ''specific_staff_roles''))"

definition default_roles :: "(string \<Rightarrow> error + pyjson) \<Rightarrow> guild \<Rightarrow> row option \<Rightarrow> error + int list" where
  "default_roles loads g guild_config =
     (case guild_config of
        None \<Rightarrow> Inr []
      | Some c \<Rightarrow> roles_of_cell loads g (c ''default_staff_roles''))"

definition get_staff_roles_for_ticket_type ::
  "(string \<Rightarrow> error + pyjson) \<Rightarrow> database \<Rightarrow> guild \<Rightarrow> sqlval \<Rightarrow> row option \<Rightarrow> error + int list" where
  "get_staff_roles_for_ticket_type loads d g ticket_type_name guild_config =
     (case specific_roles loads d g ticket_type_name of
        Inl e \<Rightarrow> Inl e
      | Inr specific \<Rightarrow>
          if specific \<noteq> [] then Inr specific
          else (case default_roles loads g guild_config of
                  Inl e \<Rightarrow> Inl e
                | Inr dflt \<Rightarrow> Inr (if dflt \<noteq> [] then dflt else [default_role g])))"

text \<open>
  \<^verbatim>\<open>any(role in interaction.user.roles for role in applicable_staff_roles if role != interaction.guild.default_role)\<close>
\<close>

definition is_staff :: "guild \<Rightarrow> int list \<Rightarrow> int list \<Rightarrow> bool" where
  "is_staff g user_roles applicable_staff_roles =
     list_ex (\<lambda>role. role \<in> set user_roles)
       (filter (\<lambda>role. role \<noteq> default_role g) applicable_staff_roles)"

section \<open>The interaction listener (cogs/ticket_cog.py, lines 42-190)\<close>

text \<open>Lines 57-62: \<^verbatim>\<open>int(parts[2])\<close>, then \<^verbatim>\<open>parts[3]\<close>.\<close>

definition parse_create :: "string list \<Rightarrow> error + (int \<times> string)" where
  "parse_create parts =
     (case index parts 2 of
        Inl e \<Rightarrow> Inl e
      | Inr a \<Rightarrow>
          (case py_int a of
             Inl e \<Rightarrow> Inl e
           | Inr guild_id_from_id \<Rightarrow>
               (case index parts 3 of
                  Inl e \<Rightarrow> Inl e
                | Inr ticket_type_name \<Rightarrow> Inr (guild_id_from_id, ticket_type_name))))"

text \<open>Lines 160-165: \<^verbatim>\<open>int(parts[2])\<close>; the owner id of the button is not read.\<close>

definition parse_close :: "string list \<Rightarrow> error + int" where
  "parse_close parts = (case index parts 2 of Inl e \<Rightarrow> Inl e | Inr a \<Rightarrow> py_int a)"

text \<open>\<^verbatim>\<open>len(open_tickets) >= limit\<close> for a limit read from a row.\<close>

fun len_ge :: "nat \<Rightarrow> sqlval \<Rightarrow> error + bool" where
  "len_ge n (SInt limit) = Inr (int n \<ge> limit)"
| "len_ge n v = Inl TypeError"

text \<open>
  Lines 98-139, once the naming format is read: the channel is created (its name and
  permission overwrites are not part of the state here), the ticket row is inserted, the
  welcome text is read with \<^verbatim>\<open>ticket_type_db.get('welcome_message')\<close> and posted. The
  staff notification that follows (lines 141-156) is not modelled.
\<close>

definition open_channel ::
  "env \<Rightarrow> world \<Rightarrow> interaction \<Rightarrow> row \<Rightarrow> string \<Rightarrow> sqlval \<Rightarrow> error option \<times> world" where
  "open_channel env w ia ticket_type_db ticket_type_name ticket_display_id =
     (case create_text_channel_result env of
        Inl e \<Rightarrow>
          if is_http_exception e
          then (None, emit (Followup_send (Formatted ''Failed to create ticket channel: {}.'' [])) w)
          else (Some e, w)
      | Inr ticket_channel \<Rightarrow>
          (let w1 = emit (Create_text_channel ticket_channel) w in
           case create_ticket (db w1) (now env) (g_id (i_guild ia)) (i_user_id ia)
                  ticket_channel ticket_type_name ticket_display_id of
             (Some e, d) \<Rightarrow> (Some e, w1)
           | (None, d) \<Rightarrow>
               (case row_get ticket_type_db ''welcome_message'' SNull of
                  Inl e \<Rightarrow> (Some e, w1\<lparr>db := d\<rparr>)
                | Inr welcome \<Rightarrow>
                    (None,
                     emit (Followup_send (Formatted ''Ticket created: {}'' [SInt ticket_channel]))
                       (emit (Channel_send ticket_channel
                                (Formatted ''{} - Ticket #{}'' [ticket_type_db ''display_name'', ticket_display_id]))
                          (w1\<lparr>db := d\<rparr>))))))"

text \<open>
  Lines 83-97: the category, the staff roles, the display number, the naming format
  (\<^verbatim>\<open>guild_config.get('ticket_naming_format', ..)\<close>).
\<close>

definition provision_ticket ::
  "(string \<Rightarrow> error + pyjson) \<Rightarrow> env \<Rightarrow> world \<Rightarrow> interaction \<Rightarrow> row \<Rightarrow> row \<Rightarrow> string \<Rightarrow> error option \<times> world" where
  "provision_ticket loads env w ia guild_config ticket_type_db ticket_type_name =
     (case get_channel (i_guild ia) (guild_config ''ticket_channel_category_id'') of
        None \<Rightarrow>
          (None, emit (Followup_send (Text ''Configured ticket category is invalid. Admin needs to fix this.'')) w)
      | Some (category_id, kind) \<Rightarrow>
          if kind \<noteq> Category_channel
          then (None, emit (Followup_send (Text ''Configured ticket category is invalid. Admin needs to fix this.'')) w)
          else
            (case get_staff_roles_for_ticket_type loads (db w) (i_guild ia) (SText ticket_type_name)
                    (Some guild_config) of
               Inl e \<Rightarrow> (Some e, w)
             | Inr staff_roles_to_apply \<Rightarrow>
                 if staff_roles_to_apply = [] \<or> staff_roles_to_apply = [default_role (i_guild ia)]
                 then (None,
                       emit (Followup_send
                         (Text ''No valid staff roles configured for this ticket type. Admin needs to fix this.'')) w)
                 else
                   (let w1 = w\<lparr>db := snd (get_and_increment_ticket_counter (db w) (g_id (i_guild ia)))\<rparr>;
                        ticket_display_id =
                          fst (get_and_increment_ticket_counter (db w) (g_id (i_guild ia)))
                    in case row_get guild_config ''ticket_naming_format''
                              (SText ''ticket-{user_short}-{id}'') of
                         Inl e \<Rightarrow> (Some e, w1)
                       | Inr naming_format \<Rightarrow>
                           open_channel env w1 ia ticket_type_db ticket_type_name ticket_display_id)))"

text \<open>
  Lines 55-81: the deferred answer, the button id, the guild, the configuration and the
  type, then the limit, read with \<^verbatim>\<open>guild_config.get('ticket_limit_per_user', 1)\<close>.
\<close>

definition create_flow :: "(string \<Rightarrow> error + pyjson) \<Rightarrow> env \<Rightarrow> world \<Rightarrow> interaction \<Rightarrow> string list \<Rightarrow> error option \<times> world" where
  "create_flow loads env w0 ia parts =
     (let w = emit Defer w0 in
      case parse_create parts of
        Inl e \<Rightarrow>
          if e = IndexError \<or> e = ValueError
          then (None, emit (Followup_send (Text ''Invalid button ID.'')) w)
          else (Some e, w)
      | Inr (guild_id_from_id, ticket_type_name) \<Rightarrow>
          if g_id (i_guild ia) \<noteq> guild_id_from_id
          then (None, emit (Followup_send (Text ''Button belongs to a different server.'')) w)
          else
            (case (get_guild_config (db w) (g_id (i_guild ia)),
                   get_ticket_type_by_name (db w) (g_id (i_guild ia)) ticket_type_name) of
               (Some guild_config, Some ticket_type_db) \<Rightarrow>
                 if truthy (guild_config ''ticket_channel_category_id'')
                 then
                   (let open_tickets =
                          get_open_tickets_by_user (db w) (g_id (i_guild ia)) (i_user_id ia)
                    in case row_get guild_config ''ticket_limit_per_user'' (SInt 1) of
                         Inl e \<Rightarrow> (Some e, w)
                       | Inr limit \<Rightarrow>
                           (case len_ge (length open_tickets) limit of
                              Inl e \<Rightarrow> (Some e, w)
                            | Inr reached \<Rightarrow>
                                if reached
                                then (case row_get guild_config ''ticket_limit_per_user'' (SInt 1) of
                                        Inl e \<Rightarrow> (Some e, w)
                                      | Inr shown \<Rightarrow>
                                          (None,
                                           emit (Followup_send
                                             (Formatted ''You have reached the maximum limit of {} open ticket(s).''
                                                [shown])) w))
                                else provision_ticket loads env w ia guild_config ticket_type_db
                                       ticket_type_name))
                 else (None,
                       emit (Followup_send
                         (Text ''Ticket system is not fully configured. Contact an admin.'')) w)
             | _ \<Rightarrow>
                 (None,
                  emit (Followup_send
                    (Text ''Ticket system is not fully configured. Contact an admin.'')) w)))"

text \<open>Line 185: \<^verbatim>\<open>if not is_staff and (not is_owner or not can_user_close)\<close> refuses.\<close>

definition close_refused :: "bool \<Rightarrow> bool \<Rightarrow> bool \<Rightarrow> bool" where
  "close_refused staff owner can_user_close = (\<not> staff \<and> (\<not> owner \<or> \<not> can_user_close))"

text \<open>
  Line 177:
  \<^verbatim>\<open>can_user_close = guild_config.get('allow_user_close', 1) == 1 if guild_config else False\<close>
\<close>

definition can_user_close_of :: "row option \<Rightarrow> error + bool" where
  "can_user_close_of guild_config =
     (case guild_config of
        None \<Rightarrow> Inr False
      | Some c \<Rightarrow>
          (case row_get c ''allow_user_close'' (SInt 1) of
             Inl e \<Rightarrow> Inl e
           | Inr v \<Rightarrow> Inr (v = SInt 1)))"

text \<open>Lines 159-190: the close button.\<close>

definition close_flow :: "(string \<Rightarrow> error + pyjson) \<Rightarrow> world \<Rightarrow> interaction \<Rightarrow> string list \<Rightarrow> error option \<times> world" where
  "close_flow loads w ia parts =
     (case parse_close parts of
        Inl e \<Rightarrow>
          if e = IndexError \<or> e = ValueError
          then (None, emit (Send_message (Text ''Invalid close button ID.'')) w)
          else (Some e, w)
      | Inr channel_id_from_id \<Rightarrow>
          if i_channel_id ia \<noteq> channel_id_from_id
          then (None, emit (Send_message (Text ''This button is for a different ticket.'')) w)
          else
            (case get_ticket_by_channel (db w) (i_channel_id ia) of
               None \<Rightarrow>
                 (None, emit (Send_message (Text ''This ticket is not valid or already closed.'')) w)
             | Some ticket_data \<Rightarrow>
                 if ticket_data ''status'' = SText ''closed''
                 then (None, emit (Send_message (Text ''This ticket is not valid or already closed.'')) w)
                 else
                   (let guild_config = get_guild_config (db w) (g_id (i_guild ia)) in
                    case can_user_close_of guild_config of
                      Inl e \<Rightarrow> (Some e, w)
                    | Inr can_user_close \<Rightarrow>
                        (case get_staff_roles_for_ticket_type loads (db w) (i_guild ia)
                                (ticket_data ''ticket_type_name'') guild_config of
                           Inl e \<Rightarrow> (Some e, w)
                         | Inr applicable_staff_roles \<Rightarrow>
                             if close_refused
                                  (is_staff (i_guild ia) (i_user_roles ia) applicable_staff_roles)
                                  (SInt (i_user_id ia) = ticket_data ''user_id'')
                                  can_user_close
                             then (None,
                                   emit (Send_message
                                     (Text ''You do not have permission to close this ticket.'')) w)
                             else (None, emit (Send_modal (i_channel_id ia)) w)))))"

text \<open>
  Lines 43-53 and 158: the listener. \<^verbatim>\<open>parts[0]\<close> always exists; \<^verbatim>\<open>parts[1]\<close> is read,
  outside any \<^verbatim>\<open>try\<close>, as soon as the first part names one of the two namespaces.
\<close>

definition on_interaction :: "(string \<Rightarrow> error + pyjson) \<Rightarrow> env \<Rightarrow> world \<Rightarrow> interaction \<Rightarrow> error option \<times> world" where
  "on_interaction loads env w ia =
     (if \<not> i_is_component ia then (None, w)
      else
        (case i_custom_id ia of
           None \<Rightarrow> (None, w)
         | Some custom_id \<Rightarrow>
             (let parts = split_on CHR '':'' custom_id in
              case index parts 0 of
                Inl e \<Rightarrow> (Some e, w)
              | Inr action_type \<Rightarrow>
                  if action_type = ''ticket_panel''
                  then (case index parts 1 of
                          Inl e \<Rightarrow> (Some e, w)
                        | Inr action \<Rightarrow>
                            if action = ''create'' then create_flow loads env w ia parts else (None, w))
                  else if action_type = ''ticket_actions''
                  then (case index parts 1 of
                          Inl e \<Rightarrow> (Some e, w)
                        | Inr action \<Rightarrow>
                            if action = ''close'' then close_flow loads w ia parts else (None, w))
                  else (None, w))))"

section \<open>The close modal (utils/views.py, lines 22-121)\<close>

text \<open>
  Lines 35-73. The history of the ticket channel is read first, outside the \<^verbatim>\<open>try\<close>;
  the \<^verbatim>\<open>try\<close> holds \<^verbatim>\<open>fetch_user\<close> and the \<^verbatim>\<open>send\<close> to the transcript channel, and
  \<^verbatim>\<open>except Exception\<close> catches whatever they raise. The result is the exception that
  leaves the block, the transcript link (\<^verbatim>\<open>None\<close> as \<open>SNull\<close>), and the world. The text
  of the transcript is not modelled.
\<close>

definition send_transcript :: "env \<Rightarrow> world \<Rightarrow> guild \<Rightarrow> row \<Rightarrow> error option \<times> sqlval \<times> world" where
  "send_transcript env w g guild_config =
     (if truthy (guild_config ''transcript_channel_id'')
      then (case get_channel g (guild_config ''transcript_channel_id'') of
              None \<Rightarrow>
                (None, SNull,
                 emit (Followup_send (Text ''Transcript channel not found, but closing ticket.'')) w)
            | Some (transcript_channel, kind) \<Rightarrow>
                (case history_result env of
                   Some e \<Rightarrow> (Some e, SNull, w)
                 | None \<Rightarrow>
                     (case (case fetch_user_result env of
                              Some e \<Rightarrow> Inl e
                            | None \<Rightarrow> transcript_send_result env) of
                        Inl e \<Rightarrow>
                          (None, SNull,
                           emit (Followup_send
                             (Text ''Ticket closed, but an error occurred while sending the transcript.'')) w)
                      | Inr jump_url \<Rightarrow>
                          (None, SText jump_url,
                           emit (Channel_send transcript_channel
                                   (Text ''Ticket Transcript'')) w))))
      else (None, SNull, w))"

text \<open>
  Lines 99-116, the body of the last \<^verbatim>\<open>try\<close>: the channel is renamed, moved to the
  archive category when one is configured and found, and the opener's permissions are
  changed when the opener is still a member.
\<close>

definition archive_channel ::
  "env \<Rightarrow> world \<Rightarrow> guild \<Rightarrow> row \<Rightarrow> row \<Rightarrow> int \<Rightarrow> error option \<times> world" where
  "archive_channel env w g guild_config ticket_data ticket_channel =
     (let user_who_opened =
            (case ticket_data ''user_id'' of
               SInt u \<Rightarrow> if u \<in> set (g_members g) then Some u else None
             | _ \<Rightarrow> None);
          archive_category =
            (if truthy (guild_config ''archive_channel_category_id'')
             then map_option fst (get_channel g (guild_config ''archive_channel_category_id''))
             else None)
      in case channel_edit_result env of
           Some e \<Rightarrow> (Some e, w)
         | None \<Rightarrow>
             (let w1 = emit (Channel_edit ticket_channel archive_category) w in
              case user_who_opened of
                None \<Rightarrow> (None, w1)
              | Some u \<Rightarrow>
                  (case set_permissions_result env of
                     Some e \<Rightarrow> (Some e, w1)
                   | None \<Rightarrow>
                       (None,
                        emit (Set_permissions ticket_channel u
                                (if archive_category = None then Read_only else Remove_overwrite)) w1))))"

text \<open>
  Lines 85-121: the notice in the ticket channel, whose \<^verbatim>\<open>HTTPException\<close> is passed
  over, then the \<^verbatim>\<open>try\<close> around the changes to the channel, with the answer to the
  requester in either case.
\<close>

definition notify_and_archive ::
  "env \<Rightarrow> world \<Rightarrow> interaction \<Rightarrow> row \<Rightarrow> row \<Rightarrow> int \<Rightarrow> string \<Rightarrow> error option \<times> world" where
  "notify_and_archive env w2 ia guild_config ticket_data ticket_channel_id reason =
     (case (case notice_send_result env of
              None \<Rightarrow>
                Inr (emit (Channel_send ticket_channel_id
                             (Formatted ''This ticket has been closed by {}. Reason: {}''
                                [SInt (i_user_id ia), SText reason])) w2)
            | Some e \<Rightarrow> if is_http_exception e then Inr w2 else Inl e) of
        Inl e \<Rightarrow> (Some e, w2)
      | Inr w3 \<Rightarrow>
          (case archive_channel env w3 (i_guild ia) guild_config ticket_data ticket_channel_id of
             (Some e, w4) \<Rightarrow>
               (None,
                emit (Followup_send
                  (Text ''Ticket closed, but an error occurred modifying the channel.'')) w4)
           | (None, w4) \<Rightarrow>
               (None,
                emit (Followup_send
                  (Formatted ''Ticket #{} has been closed.''
                     [ticket_data ''ticket_display_id''])) w4)))"

text \<open>
  \<^verbatim>\<open>CloseTicketModal.on_submit\<close>. \<open>reason_input\<close> is the text of the form field, empty
  when the requester left it blank.
\<close>

definition on_submit ::
  "env \<Rightarrow> world \<Rightarrow> interaction \<Rightarrow> int \<Rightarrow> string \<Rightarrow> error option \<times> world" where
  "on_submit env w0 ia ticket_channel_id reason_input =
     (let w = emit Defer w0 in
      case (get_guild_config (db w) (g_id (i_guild ia)),
            get_ticket_by_channel (db w) ticket_channel_id,
            get_channel (i_guild ia) (SInt ticket_channel_id)) of
        (Some guild_config, Some ticket_data, Some ticket_channel) \<Rightarrow>
          (let reason = (if reason_input = [] then ''No reason provided.'' else reason_input) in
           case send_transcript env w (i_guild ia) guild_config of
             (Some e, link, w1) \<Rightarrow> (Some e, w1)
           | (None, transcript_message_link, w1) \<Rightarrow>
               (case update_ticket (db w1) ticket_channel_id
                       [(Status, SText ''closed''),
                        (Closed_by_user_id, SInt (i_user_id ia)),
                        (Closed_at, SText (now env)),
                        (Close_reason, SText reason),
                        (Transcript_message_id, transcript_message_link)] of
                  (Some e, d) \<Rightarrow> (Some e, w1)
                | (None, d) \<Rightarrow>
                    notify_and_archive env (w1\<lparr>db := d\<rparr>) ia guild_config ticket_data
                      ticket_channel_id reason))
      | _ \<Rightarrow> (None, emit (Followup_send (Text ''Error: Ticket or configuration not found.'')) w))"

section \<open>The close command (cogs/ticket_commands.py, lines 16-78)\<close>

text \<open>
  The file imports \<^verbatim>\<open>discord\<close>, \<^verbatim>\<open>commands\<close>, \<^verbatim>\<open>app_commands\<close>, \<^verbatim>\<open>db_manager\<close>,
  \<^verbatim>\<open>views\<close> and \<^verbatim>\<open>json\<close>, and not \<^verbatim>\<open>datetime\<close>: evaluating the argument
  \<^verbatim>\<open>closed_at=datetime.datetime.now(..)\<close> of the call to \<^verbatim>\<open>update_ticket\<close> (line 67)
  raises \<^verbatim>\<open>NameError\<close> before the call is made, and lines 71-78 are not reached. The
  \<^verbatim>\<open>send\<close> to the transcript channel (line 60) is in no \<^verbatim>\<open>try\<close>.
\<close>

definition close_ticket_command ::
  "(string \<Rightarrow> error + pyjson) \<Rightarrow> env \<Rightarrow> world \<Rightarrow> interaction \<Rightarrow> string option \<Rightarrow> error option \<times> world" where
  "close_ticket_command loads env w ia reason =
     (case get_ticket_by_channel (db w) (i_channel_id ia) of
        None \<Rightarrow>
          (None, emit (Send_message
             (Text ''This is not an active ticket channel or it's already closed.'')) w)
      | Some ticket_data \<Rightarrow>
          if ticket_data ''status'' = SText ''closed''
          then (None, emit (Send_message
                  (Text ''This is not an active ticket channel or it's already closed.'')) w)
          else
            (case get_guild_config (db w) (g_id (i_guild ia)) of
               None \<Rightarrow> (None, emit (Send_message (Text ''Server configuration not found.'')) w)
             | Some guild_config \<Rightarrow>
                 if \<not> ticket_cog_loaded env
                 then (None, emit (Send_message
                         (Text ''TicketCog not found, cannot verify staff roles.'')) w)
                 else
                   (case get_staff_roles_for_ticket_type loads (db w) (i_guild ia)
                           (ticket_data ''ticket_type_name'') (Some guild_config) of
                      Inl e \<Rightarrow> (Some e, w)
                    | Inr applicable_staff_roles \<Rightarrow>
                        if \<not> is_staff (i_guild ia) (i_user_roles ia) applicable_staff_roles
                        then (None,
                              emit (Send_message
                                (Text ''You do not have permission to close this ticket using this command.'')) w)
                        else
                          (let w1 = emit Defer w in
                           case (if truthy (guild_config ''transcript_channel_id'')
                                 then (case get_channel (i_guild ia)
                                              (guild_config ''transcript_channel_id'') of
                                         None \<Rightarrow> Inr w1
                                       | Some (transcript_channel, kind) \<Rightarrow>
                                           (case transcript_send_result env of
                                              Inl e \<Rightarrow> Inl e
                                            | Inr url \<Rightarrow>
                                                Inr (emit (Channel_send transcript_channel
                                                             (Text ''Transcript'')) w1)))
                                 else Inr w1) of
                             Inl e \<Rightarrow> (Some e, w1)
                           | Inr w2 \<Rightarrow> (Some NameError, w2)))))"

section \<open>Configuration commands (cogs/config_cog.py)\<close>

definition opt_int :: "int option \<Rightarrow> pyval" where
  "opt_int x = (case x of None \<Rightarrow> PNone | Some n \<Rightarrow> PInt n)"

text \<open>\<^verbatim>\<open>setup_defaults\<close>, lines 17-47; the arguments are the ids of the role and channels.\<close>

definition setup_defaults ::
  "world \<Rightarrow> interaction \<Rightarrow> int \<Rightarrow> int \<Rightarrow> int option \<Rightarrow> int option \<Rightarrow> int option
     \<Rightarrow> error option \<times> world" where
  "setup_defaults w0 ia staff_role ticket_creation_category transcript_channel log_channel
       archive_category =
     (let w = emit Defer w0 in
      case update_guild_config (db w) (g_id (i_guild ia))
             [(''default_staff_roles'', PJsonStr [staff_role]),
              (''ticket_channel_category_id'', PInt ticket_creation_category),
              (''transcript_channel_id'', opt_int transcript_channel),
              (''log_channel_id'', opt_int log_channel),
              (''archive_channel_category_id'', opt_int archive_category),
              (''ticket_naming_format'', PStr ''ticket-{user_short}-{id}''),
              (''ticket_limit_per_user'', PInt 1),
              (''allow_user_close'', PInt 1)] of
        (Some e, d) \<Rightarrow> (Some e, w\<lparr>db := d\<rparr>)
      | (None, d) \<Rightarrow>
          (None, emit (Followup_send (Text ''Basic ticket configuration updated!'')) (w\<lparr>db := d\<rparr>)))"

text \<open>
  \<^verbatim>\<open>add_type\<close>, lines 51-84, and \<^verbatim>\<open>remove_type\<close>, lines 98-106: both normalize the
  name the administrator typed before they call the database.
\<close>

definition add_type ::
  "world \<Rightarrow> interaction \<Rightarrow> string \<Rightarrow> string \<Rightarrow> string option \<Rightarrow> string option \<Rightarrow> string option
     \<Rightarrow> string option \<Rightarrow> int option \<Rightarrow> bool \<times> world" where
  "add_type w0 ia internal_name display_name description emoji button_style welcome_message
       specific_staff_role =
     (let w = emit Defer w0;
          internal_name_clean = normalize_name internal_name;
          actual_button_style =
            (case button_style of
               None \<Rightarrow> ''primary''
             | Some v \<Rightarrow>
                 if v \<in> set [''primary'', ''secondary'', ''success'', ''danger''] then v
                 else ''primary'');
          roles_list = map_option (\<lambda>r. [r]) specific_staff_role;
          res = add_ticket_type (db w) (g_id (i_guild ia)) internal_name_clean display_name
                  description emoji actual_button_style welcome_message roles_list;
          w1 = emit (Followup_send
                  (if fst res
                   then Formatted ''Ticket type '{}' added with internal name `{}`.''
                          [SText display_name, SText internal_name_clean]
                   else Formatted ''Failed to add ticket type. An internal name `{}` might already exist.''
                          [SText internal_name_clean]))
                 (w\<lparr>db := snd res\<rparr>)
      in (fst res,
          case button_style of
            None \<Rightarrow> w1
          | Some v \<Rightarrow>
              if v \<in> set [''primary'', ''secondary'', ''success'', ''danger''] then w1
              else emit (Followup_send
                           (Formatted ''Warning: Invalid button style '{}' provided. Defaulted to primary.''
                              [SText v])) w1))"

definition remove_type :: "world \<Rightarrow> interaction \<Rightarrow> string \<Rightarrow> bool \<times> world" where
  "remove_type w0 ia internal_name =
     (let w = emit Defer w0;
          internal_name_clean = normalize_name internal_name;
          res = remove_ticket_type (db w) (g_id (i_guild ia)) internal_name_clean
      in (fst res,
          emit (Followup_send
                  (if fst res
                   then Formatted ''Ticket type with internal name `{}` removed.''
                          [SText internal_name_clean]
                   else Formatted ''Ticket type with internal name `{}` not found.''
                          [SText internal_name_clean]))
            (w\<lparr>db := snd res\<rparr>)))"

text \<open>
  The operations that write a row of \<^verbatim>\<open>guild_configs\<close>: the counter, the upsert with
  any keyword arguments, and the initial setup.
\<close>

datatype config_op =
    Counter_increment int
  | Config_upsert int "(string \<times> pyval) list"
  | Initial_setup interaction int int "int option" "int option" "int option"

fun apply_config_op :: "config_op \<Rightarrow> world \<Rightarrow> world" where
  "apply_config_op (Counter_increment gid) w =
     w\<lparr>db := snd (get_and_increment_ticket_counter (db w) gid)\<rparr>"
| "apply_config_op (Config_upsert gid kwargs) w =
     w\<lparr>db := snd (update_guild_config (db w) gid kwargs)\<rparr>"
| "apply_config_op (Initial_setup ia staff_role category transcript_channel log_channel archive) w =
     snd (setup_defaults w ia staff_role category transcript_channel log_channel archive)"

definition run_config_ops :: "config_op list \<Rightarrow> world \<Rightarrow> world" where
  "run_config_ops ops w = foldl (\<lambda>w' op. apply_config_op op w') w ops"

text \<open>The stored counter of a guild, when its row exists and the cell is an integer.\<close>

definition counter_value :: "world \<Rightarrow> int \<Rightarrow> int option" where
  "counter_value w gid =
     (case guild_configs (db w) gid of
        Some r \<Rightarrow> (case r ''ticket_counter'' of SInt n \<Rightarrow> Some n | _ \<Rightarrow> None)
      | None \<Rightarrow> None)"

text \<open>
  The cells the program writes into the two role columns: NULL, or the encoding of a
  list of role ids.
\<close>

fun is_role_cell :: "sqlval \<Rightarrow> bool" where
  "is_role_cell SNull = True"
| "is_role_cell (SJson ids) = True"
| "is_role_cell v = False"

section \<open>Example states\<close>

text \<open>
  A guild with the staff role 50, the category 10, the transcript channel 20 and the
  ticket channel 100; its configuration row; the type \<^verbatim>\<open>billing\<close>; and the ticket
  number 1 that user 7 opened in channel 100.
\<close>

definition empty_database :: database where
  "empty_database =
     \<lparr>guild_configs = (\<lambda>g. None), ticket_types = [], tickets = [], type_seq = 0, ticket_seq = 0\<rparr>"

definition example_guild :: guild where
  "example_guild =
     \<lparr>g_id = 1, g_roles = [1, 50],
      g_channels = (\<lambda>c. None)(10 := Some Category_channel, 20 := Some Text_channel,
                                100 := Some Text_channel),
      g_members = [7, 8]\<rparr>"

definition example_config :: row where
  "example_config =
     (guild_config_defaults 1)
       (''ticket_channel_category_id'' := SInt 10,
        ''transcript_channel_id'' := SInt 20,
        ''default_staff_roles'' := SJson [50])"

definition example_database :: database where
  "example_database =
     snd (create_ticket
            (snd (add_ticket_type
                    (empty_database\<lparr>guild_configs := (\<lambda>g. None)(1 := Some example_config)\<rparr>)
                    1 ''Billing'' ''Billing'' None None ''primary'' None None))
            ''2024-01-01 00:00:00+00:00'' 1 7 100 ''billing'' (SInt 1))"


text \<open>The database after a type was added under the name \<^verbatim>\<open>Bug Report\<close>.\<close>

definition bug_report_database :: database where
  "bug_report_database =
     snd (add_ticket_type empty_database 1 ''Bug Report'' ''Bugs'' None None ''primary'' None None)"

definition example_env :: env where
  "example_env =
     \<lparr>now = ''2024-01-02 00:00:00+00:00'',
      create_text_channel_result = Inr 101,
      history_result = None,
      fetch_user_result = None,
      transcript_send_result = Inr ''https://discord.com/channels/1/20/900'',
      notice_send_result = None,
      channel_edit_result = None,
      set_permissions_result = None,
      ticket_cog_loaded = True\<rparr>"

section \<open>Facts used throughout\<close>

lemma emit_db: "db (emit a w) = db w"
  by (simp add: emit_def)


lemma assign_other: "c \<notin> fst ` set kvs \<Longrightarrow> assign kvs r c = r c"
  by (induction kvs arbitrary: r) auto

lemma find_append_one:
  "find P (xs @ [y]) = (case find P xs of Some r \<Rightarrow> Some r | None \<Rightarrow> if P y then Some y else None)"
  by (induction xs) auto

lemma find_None_iff_list_ex: "find P xs = None \<longleftrightarrow> \<not> list_ex P xs"
  by (induction xs) auto

lemma find_filter_not: "find P (filter (\<lambda>r. \<not> P r) xs) = None"
  by (induction xs) auto

lemma normalize_billing: "normalize_name ''Billing'' = ''billing''"
  by code_simp

lemma normalize_bug_report:
  "normalize_name ''Bug Report'' = ''bug-report''"
  "normalize_name ''BUG REPORT'' = ''bug-report''"
  by code_simp+

lemma py_int_examples: "py_int ''1'' = Inr 1" "py_int ''100'' = Inr 100"
  by code_simp+

lemma split_examples:
  "split_on CHR '':'' ''ticket_panel:create:1:billing'' = [''ticket_panel'', ''create'', ''1'', ''billing'']"
  "split_on CHR '':'' ''ticket_actions:close:100:7'' = [''ticket_actions'', ''close'', ''100'', ''7'']"
  by simp_all

lemma example_tickets:
  "tickets example_database =
     [(\<lambda>c. SNull)
        (''ticket_db_id'' := SInt 1, ''guild_id'' := SInt 1, ''ticket_display_id'' := SInt 1,
         ''user_id'' := SInt 7, ''channel_id'' := SInt 100, ''ticket_type_name'' := SText ''billing'',
         ''status'' := SText ''open'', ''created_at'' := SText ''2024-01-01 00:00:00+00:00'')]"
  by (simp add: example_database_def create_ticket_def add_ticket_type_def empty_database_def Let_def)

lemma example_configs: "guild_configs example_database = (\<lambda>g. None)(1 := Some example_config)"
  by (simp add: example_database_def create_ticket_def add_ticket_type_def empty_database_def Let_def)

lemma example_type: "get_ticket_type_by_name example_database 1 ''billing'' \<noteq> None"
  by (simp add: example_database_def create_ticket_def add_ticket_type_def empty_database_def Let_def
      normalize_billing get_ticket_type_by_name_def type_key_matches_def)


section \<open>The counter under concurrent requests\<close>

text \<open>
  C1. Two requests for tickets in guild 1 arrive together on a database with no row for
  the guild. Both run their first SELECT, both their INSERT OR IGNORE, then each its
  UPDATE, and only then each its last SELECT: both calls return 2. The increment and
  the read are two statements with a commit between them, so the two calls are not
  handed distinct numbers.
\<close>

theorem counter_race_returns_same_number:
  "snd (interleave 1 [0, 1, 0, 1, 0, 1, 0, 1] (empty_database, [At_select, At_select]))
     = [Returned (SInt 2), Returned (SInt 2)]"
  by (simp add: empty_database_def insert_or_ignore_config_def bump_counter_def
      read_counter_def guild_config_defaults_def)

text \<open>A call that nothing interrupts is the four steps in a row.\<close>

lemma uninterrupted_call:
  "interleave gid [0, 0, 0, 0] (d, [At_select])
     = (snd (get_and_increment_ticket_counter d gid),
        [Returned (fst (get_and_increment_ticket_counter d gid))])"
  by (cases "guild_configs d gid")
     (simp_all add: get_and_increment_ticket_counter_def insert_or_ignore_config_def
        bump_counter_def Let_def)

section \<open>Writes to the configuration row\<close>

text \<open>
  The first statement of \<^verbatim>\<open>update_guild_config\<close> has \<open>2n + 1\<close> placeholders for \<open>n\<close>
  keyword arguments and is executed with \<open>2n + 2\<close> values: whatever the arguments,
  the call raises at line 99 and writes nothing.
\<close>

lemma execute_wrong_bindings:
  "length ps \<noteq> placeholders stmt \<Longrightarrow> \<exists>e. execute d stmt ps = Inl e"
  by (simp add: execute_def)

lemma update_guild_config_raises: "\<exists>e. update_guild_config d gid kwargs = (Some e, d)"
proof -
  have "length ((SInt gid # map (to_sql \<circ> snd) kwargs) @ (map (to_sql \<circ> snd) kwargs @ [SInt gid]))
          \<noteq> placeholders (Upsert (map fst kwargs) (map fst kwargs))"
    by simp
  from execute_wrong_bindings [OF this]
  obtain e where "execute d (Upsert (map fst kwargs) (map fst kwargs))
      ((SInt gid # map (to_sql \<circ> snd) kwargs) @ (map (to_sql \<circ> snd) kwargs @ [SInt gid])) = Inl e"
    by blast
  then show ?thesis by (simp add: update_guild_config_def Let_def)
qed

lemma update_guild_config_db: "snd (update_guild_config d gid kwargs) = d"
  using update_guild_config_raises [of d gid kwargs] by auto

lemma setup_defaults_db: "db (snd (setup_defaults w ia a b c e f)) = db w"
proof -
  obtain err where "update_guild_config (db (emit Defer w)) (g_id (i_guild ia))
             [(''default_staff_roles'', PJsonStr [a]),
              (''ticket_channel_category_id'', PInt b),
              (''transcript_channel_id'', opt_int c),
              (''log_channel_id'', opt_int e),
              (''archive_channel_category_id'', opt_int f),
              (''ticket_naming_format'', PStr ''ticket-{user_short}-{id}''),
              (''ticket_limit_per_user'', PInt 1),
              (''allow_user_close'', PInt 1)] = (Some err, db (emit Defer w))"
    using update_guild_config_raises by blast
  then show ?thesis by (simp add: setup_defaults_def Let_def emit_def)
qed

text \<open>
  The second statement is not reached. Had it been, the row would be replaced: every
  column the call does not name, the counter among them, would be back at its default.
\<close>

lemma insert_or_replace_resets_unnamed:
  assumes "c \<notin> set cols"
    and "guild_configs (run_statement (Insert_or_replace cols) gid ps d) gid = Some r'"
  shows "r' c = guild_config_defaults gid c"
proof -
  from assms(1) have "c \<notin> fst ` set (zip cols ps)" by (auto dest: set_zip_leftD)
  then have "assign (zip cols ps) (guild_config_defaults gid) c = guild_config_defaults gid c"
    by (rule assign_other)
  with assms(2) show ?thesis by auto
qed

lemma counter_step_mono:
  "counter_value w gid = Some n \<Longrightarrow>
     \<exists>m. counter_value (apply_config_op op w) gid = Some m \<and> n \<le> m"
proof (cases op)
  case (Counter_increment g)
  assume h: "counter_value w gid = Some n"
  show ?thesis
  proof (cases "g = gid")
    case True
    with h Counter_increment show ?thesis
      by (auto simp: counter_value_def get_and_increment_ticket_counter_def bump_counter_def Let_def
          split: option.splits sqlval.splits)
  next
    case False
    with h Counter_increment show ?thesis
      by (auto simp: counter_value_def get_and_increment_ticket_counter_def bump_counter_def Let_def
          insert_or_ignore_config_def split: option.splits sqlval.splits)
  qed
next
  case (Config_upsert g kwargs)
  assume "counter_value w gid = Some n"
  with Config_upsert show ?thesis by (simp add: counter_value_def update_guild_config_db)
next
  case (Initial_setup ia a b c e f)
  assume "counter_value w gid = Some n"
  with Initial_setup show ?thesis by (simp add: counter_value_def setup_defaults_db)
qed

text \<open>
  C2. Along any sequence of counter increments, configuration upserts and initial
  setups, the operation that comes next leaves the stored counter of every guild at
  least as large as it was.
\<close>

theorem ticket_counter_never_decreases:
  "counter_value (run_config_ops ops w) gid = Some n \<Longrightarrow>
     \<exists>m. counter_value (run_config_ops (ops @ [op]) w) gid = Some m \<and> n \<le> m"
  using counter_step_mono [of "run_config_ops ops w" gid n op] by (simp add: run_config_ops_def)

theorem ticket_counter_never_decreases_witness:
  "counter_value
     (run_config_ops [Config_upsert 1 [(''ticket_limit_per_user'', PInt 3)], Counter_increment 1]
        \<lparr>db = example_database, log = []\<rparr>) 1 = Some 1
   \<and> (\<exists>m. counter_value
           (run_config_ops
              ([Config_upsert 1 [(''ticket_limit_per_user'', PInt 3)], Counter_increment 1]
               @ [Initial_setup
                    \<lparr>i_is_component = False, i_custom_id = None, i_guild = example_guild,
                     i_channel_id = 30, i_user_id = 8, i_user_roles = [1, 50]\<rparr>
                    50 10 None None None])
              \<lparr>db = example_database, log = []\<rparr>) 1 = Some m
        \<and> 1 \<le> m)"
proof -
  have h: "counter_value
     (run_config_ops [Config_upsert 1 [(''ticket_limit_per_user'', PInt 3)], Counter_increment 1]
        \<lparr>db = example_database, log = []\<rparr>) 1 = Some 1"
    by (simp add: run_config_ops_def update_guild_config_db counter_value_def
        get_and_increment_ticket_counter_def bump_counter_def example_configs example_config_def
        guild_config_defaults_def Let_def)
  from ticket_counter_never_decreases [OF h] h show ?thesis by blast
qed

text \<open>
  C3. For a guild whose row exists, \<^verbatim>\<open>update_guild_config\<close> leaves every column that
  its keyword arguments do not name at the value it had. (It leaves the named columns
  there as well: see \<open>update_guild_config_raises\<close>.)
\<close>

theorem update_guild_config_keeps_unnamed_fields:
  "guild_configs d gid = Some r \<Longrightarrow> c \<notin> set (map fst kwargs) \<Longrightarrow>
     \<exists>r'. guild_configs (snd (update_guild_config d gid kwargs)) gid = Some r' \<and> r' c = r c"
  by (simp add: update_guild_config_db)

theorem update_guild_config_keeps_unnamed_fields_witness:
  "guild_configs example_database 1 = Some example_config
   \<and> ''ticket_counter'' \<notin> set (map fst [(''panel_channel_id'', PInt 5), (''panel_message_id'', PInt 6)])
   \<and> (\<exists>r'. guild_configs
             (snd (update_guild_config example_database 1
                     [(''panel_channel_id'', PInt 5), (''panel_message_id'', PInt 6)])) 1 = Some r'
          \<and> r' ''ticket_counter'' = example_config ''ticket_counter'')"
proof -
  have h1: "guild_configs example_database 1 = Some example_config"
    by (simp add: example_configs)
  have h2: "''ticket_counter'' \<notin> set (map fst [(''panel_channel_id'', PInt 5), (''panel_message_id'', PInt 6)])"
    by simp
  from update_guild_config_keeps_unnamed_fields [OF h1 h2] h1 h2 show ?thesis by blast
qed

section \<open>Ticket type names\<close>

text \<open>
  C4, as the claim states it, fails: a type added under the name \<^verbatim>\<open>Bug Report\<close> is not
  found when \<^verbatim>\<open>get_ticket_type_by_name\<close> is given the same input; it is found under
  \<^verbatim>\<open>bug-report\<close>.
\<close>

theorem raw_name_lookup_finds_nothing:
  "fst (add_ticket_type empty_database 1 ''Bug Report'' ''Bug Report'' None None ''primary'' None None)
   \<and> get_ticket_type_by_name
       (snd (add_ticket_type empty_database 1 ''Bug Report'' ''Bug Report'' None None ''primary'' None None))
       1 ''Bug Report'' = None
   \<and> get_ticket_type_by_name
       (snd (add_ticket_type empty_database 1 ''Bug Report'' ''Bug Report'' None None ''primary'' None None))
       1 ''bug-report'' \<noteq> None"
  by (simp add: add_ticket_type_def empty_database_def get_ticket_type_by_name_def
      type_key_matches_def normalize_bug_report Let_def)

text \<open>
  C4, amended. When \<^verbatim>\<open>add_ticket_type\<close> succeeds, the type is stored under the
  normalized name and found under it; the lookup compares the name as given, so under
  any other name it finds what it found before; a second add of any input with the
  same normalized name returns false and changes nothing; and the remove command,
  which normalizes its input, removes the type for any such input.
\<close>

theorem ticket_type_key_round_trip:
  "add_ticket_type d gid raw display_name description emoji style welcome roles = (True, d') \<Longrightarrow>
     (\<exists>r. get_ticket_type_by_name d' gid (normalize_name raw) = Some r
          \<and> r ''name'' = SText (normalize_name raw) \<and> r ''display_name'' = SText display_name)
   \<and> (\<forall>k. k \<noteq> normalize_name raw \<longrightarrow>
          get_ticket_type_by_name d' gid k = get_ticket_type_by_name d gid k)
   \<and> (\<forall>raw2 dn2 de2 em2 st2 wm2 ro2. normalize_name raw2 = normalize_name raw \<longrightarrow>
          add_ticket_type d' gid raw2 dn2 de2 em2 st2 wm2 ro2 = (False, d'))
   \<and> (\<forall>raw2 w ia. normalize_name raw2 = normalize_name raw \<and> db w = d' \<and> g_id (i_guild ia) = gid \<longrightarrow>
          fst (remove_type w ia raw2)
          \<and> get_ticket_type_by_name (db (snd (remove_type w ia raw2))) gid (normalize_name raw) = None)"
proof -
  assume a: "add_ticket_type d gid raw display_name description emoji style welcome roles = (True, d')"
  let ?key = "normalize_name raw"
  from a have fresh: "\<not> list_ex (type_key_matches gid ?key) (ticket_types d)"
    by (auto simp: add_ticket_type_def Let_def split: if_splits)
  from a fresh obtain new where d': "ticket_types d' = ticket_types d @ [new]"
    and new: "new ''name'' = SText ?key" "new ''guild_id'' = SInt gid"
      "new ''display_name'' = SText display_name"
    by (auto simp: add_ticket_type_def Let_def split: if_splits)
  have m: "type_key_matches gid ?key new" using new by (simp add: type_key_matches_def)
  have 1: "\<exists>r. get_ticket_type_by_name d' gid ?key = Some r
          \<and> r ''name'' = SText ?key \<and> r ''display_name'' = SText display_name"
    using fresh d' new m
    by (simp add: get_ticket_type_by_name_def find_append_one find_None_iff_list_ex [symmetric])
  have 2: "\<forall>k. k \<noteq> ?key \<longrightarrow> get_ticket_type_by_name d' gid k = get_ticket_type_by_name d gid k"
    using d' new
    by (auto simp: get_ticket_type_by_name_def find_append_one type_key_matches_def
        split: option.splits)
  have ex: "list_ex (type_key_matches gid ?key) (ticket_types d')"
    using d' m by simp
  have 3: "\<forall>raw2 dn2 de2 em2 st2 wm2 ro2. normalize_name raw2 = ?key \<longrightarrow>
          add_ticket_type d' gid raw2 dn2 de2 em2 st2 wm2 ro2 = (False, d')"
    using ex by (simp add: add_ticket_type_def Let_def)
  have 4: "\<forall>raw2 w ia. normalize_name raw2 = ?key \<and> db w = d' \<and> g_id (i_guild ia) = gid \<longrightarrow>
          fst (remove_type w ia raw2)
          \<and> get_ticket_type_by_name (db (snd (remove_type w ia raw2))) gid ?key = None"
    using ex
    by (auto simp: remove_type_def remove_ticket_type_def Let_def emit_def
        get_ticket_type_by_name_def find_filter_not)
  from 1 2 3 4 show ?thesis by blast
qed

theorem ticket_type_key_round_trip_witness:
  "add_ticket_type empty_database 1 ''Bug Report'' ''Bugs'' None None ''primary'' None None
     = (True, bug_report_database)
   \<and> (\<exists>r. get_ticket_type_by_name bug_report_database 1 ''bug-report'' = Some r
          \<and> r ''name'' = SText ''bug-report'' \<and> r ''display_name'' = SText ''Bugs'')
   \<and> get_ticket_type_by_name bug_report_database 1 ''Bug Report''
       = get_ticket_type_by_name empty_database 1 ''Bug Report''
   \<and> add_ticket_type bug_report_database 1 ''BUG REPORT'' ''Other'' None None ''danger'' None None
       = (False, bug_report_database)
   \<and> fst (remove_type \<lparr>db = bug_report_database, log = []\<rparr>
             \<lparr>i_is_component = False, i_custom_id = None, i_guild = example_guild,
              i_channel_id = 30, i_user_id = 8, i_user_roles = [1, 50]\<rparr> ''BUG REPORT'')
   \<and> get_ticket_type_by_name
       (db (snd (remove_type \<lparr>db = bug_report_database, log = []\<rparr>
                   \<lparr>i_is_component = False, i_custom_id = None, i_guild = example_guild,
                    i_channel_id = 30, i_user_id = 8, i_user_roles = [1, 50]\<rparr> ''BUG REPORT'')))
       1 ''bug-report'' = None"
proof -
  have h: "add_ticket_type empty_database 1 ''Bug Report'' ''Bugs'' None None ''primary'' None None
     = (True, bug_report_database)"
    by (simp add: bug_report_database_def add_ticket_type_def empty_database_def Let_def)
  note t = ticket_type_key_round_trip [OF h]
  let ?w = "\<lparr>db = bug_report_database, log = []\<rparr>"
  let ?ia = "\<lparr>i_is_component = False, i_custom_id = None, i_guild = example_guild,
              i_channel_id = 30, i_user_id = 8, i_user_roles = [1, 50]\<rparr>"
  have a1: "\<exists>r. get_ticket_type_by_name bug_report_database 1 ''bug-report'' = Some r
          \<and> r ''name'' = SText ''bug-report'' \<and> r ''display_name'' = SText ''Bugs''"
    using t [THEN conjunct1] by (simp add: normalize_bug_report)
  have a2: "get_ticket_type_by_name bug_report_database 1 ''Bug Report''
       = get_ticket_type_by_name empty_database 1 ''Bug Report''"
    using t [THEN conjunct2, THEN conjunct1, rule_format, of "''Bug Report''"]
    by (simp add: normalize_bug_report)
  have a3: "add_ticket_type bug_report_database 1 ''BUG REPORT'' ''Other'' None None ''danger'' None None
       = (False, bug_report_database)"
    using t [THEN conjunct2, THEN conjunct2, THEN conjunct1, rule_format,
        of "''BUG REPORT''" "''Other''" None None "''danger''" None None]
    by (simp add: normalize_bug_report)
  have a4: "fst (remove_type ?w ?ia ''BUG REPORT'')
          \<and> get_ticket_type_by_name (db (snd (remove_type ?w ?ia ''BUG REPORT''))) 1 ''bug-report'' = None"
    using t [THEN conjunct2, THEN conjunct2, THEN conjunct2, rule_format, of "''BUG REPORT''" ?w ?ia]
    by (simp add: normalize_bug_report example_guild_def)
  show ?thesis
    apply (intro conjI)
         apply (rule h)
        apply (rule a1)
       apply (rule a2)
      apply (rule a3)
     apply (rule a4 [THEN conjunct1])
    apply (rule a4 [THEN conjunct2])
    done
qed

section \<open>Staff roles and the creation flow\<close>





lemma parse_close_example:
  "parse_close (split_on CHR '':'' ''ticket_actions:close:100:7'') = Inr 100"
  by (simp add: split_examples parse_close_def index_def py_int_examples)

lemma collect_roles_ids:
  "collect_roles g (map Key_int ids) = Inr (List.map_filter (get_role g) ids)"
  by (induction ids) (simp_all add: map_filter_simps split: option.splits)

lemma roles_of_cell_ok: "is_role_cell cell \<Longrightarrow> \<exists>roles. roles_of_cell loads g cell = Inr roles"
  by (cases cell) (simp_all add: roles_of_cell_def collect_roles_ids)

text \<open>
  The resolver (lines 18-39) never returns the empty list; it does return a list when
  the two role cells hold what the program writes there; and when neither cell resolves
  to a live role it returns the default role alone.
\<close>

lemma resolver_nonempty:
  "get_staff_roles_for_ticket_type loads d g name cfg = Inr roles \<Longrightarrow> roles \<noteq> []"
  by (auto simp: get_staff_roles_for_ticket_type_def split: sum.splits if_splits)

lemma resolver_sentinel:
  "specific_roles loads d g name = Inr [] \<Longrightarrow> default_roles loads g cfg = Inr [] \<Longrightarrow>
   get_staff_roles_for_ticket_type loads d g name cfg = Inr [default_role g]"
  by (simp add: get_staff_roles_for_ticket_type_def)

lemma resolver_returns:
  assumes "\<forall>t. lookup_type d (g_id g) name = Some t \<longrightarrow> is_role_cell (t ''specific_staff_roles'')"
    and "\<forall>c. cfg = Some c \<longrightarrow> is_role_cell (c ''default_staff_roles'')"
  shows "\<exists>roles. get_staff_roles_for_ticket_type loads d g name cfg = Inr roles"
proof -
  have "\<exists>sr. specific_roles loads d g name = Inr sr"
  proof (cases "lookup_type d (g_id g) name")
    case None
    then show ?thesis by (simp add: specific_roles_def)
  next
    case (Some t)
    with assms(1) have "is_role_cell (t ''specific_staff_roles'')" by simp
    from roles_of_cell_ok [OF this] Some show ?thesis by (simp add: specific_roles_def)
  qed
  moreover have "\<exists>dr. default_roles loads g cfg = Inr dr"
  proof (cases cfg)
    case None
    then show ?thesis by (simp add: default_roles_def)
  next
    case (Some c)
    with assms(2) have "is_role_cell (c ''default_staff_roles'')" by simp
    from roles_of_cell_ok [OF this] Some show ?thesis by (simp add: default_roles_def)
  qed
  ultimately show ?thesis by (auto simp: get_staff_roles_for_ticket_type_def)
qed

lemma stale_specific:
  "specific_roles loads example_database (example_guild\<lparr>g_roles := [1]\<rparr>) (SText ''billing'') = Inr []"
  by (simp add: specific_roles_def example_database_def create_ticket_def add_ticket_type_def
      empty_database_def Let_def normalize_billing get_ticket_type_by_name_def type_key_matches_def
      roles_of_cell_def example_guild_def)

lemma stale_default:
  "default_roles loads (example_guild\<lparr>g_roles := [1]\<rparr>) (Some example_config) = Inr []"
  by (simp add: default_roles_def roles_of_cell_def example_config_def List.map_filter_def
      get_role_def example_guild_def)

text \<open>
  The creation flow (lines 55-155), whatever the request, the database and the platform:
  it writes nothing, and all it sends is the deferral and one of three refusals. The
  refusal of lines 89-91, ``No valid staff roles configured'', is not among them: every
  request that passes the checks of lines 61-75 raises at line 79.
\<close>

lemma create_flow_keeps_db: "db (snd (create_flow loads env w ia parts)) = db w"
  by (auto simp: create_flow_def Let_def row_get_def emit_db
      split: sum.splits option.splits prod.splits)

lemma create_flow_answers:
  "set (log (snd (create_flow loads env w ia parts)))
     \<subseteq> set (log w) \<union> {Defer,
           Followup_send (Text ''Invalid button ID.''),
           Followup_send (Text ''Button belongs to a different server.''),
           Followup_send (Text ''Ticket system is not fully configured. Contact an admin.'')}"
  by (auto simp: create_flow_def Let_def row_get_def emit_def
      split: sum.splits option.splits prod.splits if_splits)

text \<open>
  C10. Role 50, the one staff role guild 1 is configured with, has been deleted from the
  guild; the type \<^verbatim>\<open>billing\<close> has no roles of its own. The resolver returns the default
  role alone, as the claim says. User 8, who has no open ticket, presses the button of
  the type: the handler defers, then reads the limit with \<^verbatim>\<open>guild_config.get\<close> at
  line 79 and raises \<^verbatim>\<open>AttributeError\<close>. The check of lines 88-91 is never reached and no
  ``No valid staff roles configured'' answer is sent.
\<close>

theorem stale_staff_roles_request_raises:
  "get_staff_roles_for_ticket_type loads example_database (example_guild\<lparr>g_roles := [1]\<rparr>)
        (SText ''billing'') (Some example_config) = Inr [default_role (example_guild\<lparr>g_roles := [1]\<rparr>)]
   \<and> get_open_tickets_by_user example_database 1 8 = []
   \<and> get_channel (example_guild\<lparr>g_roles := [1]\<rparr>) (example_config ''ticket_channel_category_id'')
        = Some (10, Category_channel)
   \<and> on_interaction loads example_env \<lparr>db = example_database, log = []\<rparr>
        \<lparr>i_is_component = True, i_custom_id = Some ''ticket_panel:create:1:billing'',
         i_guild = example_guild\<lparr>g_roles := [1]\<rparr>, i_channel_id = 30, i_user_id = 8,
         i_user_roles = [1]\<rparr>
       = (Some AttributeError, emit Defer \<lparr>db = example_database, log = []\<rparr>)"
proof (intro conjI)
  show "get_staff_roles_for_ticket_type loads example_database (example_guild\<lparr>g_roles := [1]\<rparr>)
        (SText ''billing'') (Some example_config) = Inr [default_role (example_guild\<lparr>g_roles := [1]\<rparr>)]"
    using stale_specific stale_default by (rule resolver_sentinel)
next
  show "get_open_tickets_by_user example_database 1 8 = []"
    by (simp add: get_open_tickets_by_user_def example_tickets sql_ne_def)
next
  show "get_channel (example_guild\<lparr>g_roles := [1]\<rparr>) (example_config ''ticket_channel_category_id'')
        = Some (10, Category_channel)"
    by (simp add: example_config_def example_guild_def)
next
  show "on_interaction loads example_env \<lparr>db = example_database, log = []\<rparr>
        \<lparr>i_is_component = True, i_custom_id = Some ''ticket_panel:create:1:billing'',
         i_guild = example_guild\<lparr>g_roles := [1]\<rparr>, i_channel_id = 30, i_user_id = 8,
         i_user_roles = [1]\<rparr>
       = (Some AttributeError, emit Defer \<lparr>db = example_database, log = []\<rparr>)"
    using example_type
    by (auto simp add: on_interaction_def index_def split_examples create_flow_def parse_create_def
        py_int_examples emit_def example_guild_def get_guild_config_def example_configs
        example_config_def guild_config_defaults_def row_get_def Let_def)
qed

section \<open>Who may close a ticket\<close>








section \<open>Closing a closed ticket\<close>

text \<open>
  The button handler and the command answer a request on a closed ticket with a refusal,
  and neither ever writes to the database.
\<close>

lemma closed_ticket_button_rejected:
  "get_ticket_by_channel (db w) (i_channel_id ia) = Some t \<Longrightarrow> t ''status'' = SText ''closed'' \<Longrightarrow>
   parse_close parts = Inr (i_channel_id ia) \<Longrightarrow>
   close_flow loads w ia parts
     = (None, emit (Send_message (Text ''This ticket is not valid or already closed.'')) w)"
  by (simp add: close_flow_def)

lemma closed_ticket_command_rejected:
  "get_ticket_by_channel (db w) (i_channel_id ia) = Some t \<Longrightarrow> t ''status'' = SText ''closed'' \<Longrightarrow>
   close_ticket_command loads env w ia reason
     = (None, emit (Send_message
          (Text ''This is not an active ticket channel or it's already closed.'')) w)"
  by (simp add: close_ticket_command_def)

lemma close_flow_keeps_db: "db (snd (close_flow loads w ia parts)) = db w"
  by (auto simp: close_flow_def emit_db Let_def split: sum.splits option.splits)

lemma close_command_keeps_db: "db (snd (close_ticket_command loads env w ia reason)) = db w"
  by (auto simp: close_ticket_command_def emit_db Let_def split: sum.splits option.splits prod.splits)

text \<open>
  C5. The button handler and the command check the status of the ticket;
  \<^verbatim>\<open>on_submit\<close>, which writes the close, does not. User 8 submits the close form of
  channel 100 and ticket 1 is closed by 8 with the reason ``first''; user 7 then submits
  a close form of the same channel, and the closed ticket is closed again, now by 7 with
  the reason ``second''.
\<close>

theorem modal_submit_recloses_closed_ticket:
  "map_option (\<lambda>t. (t ''status'', t ''closed_by_user_id'', t ''close_reason''))
     (get_ticket_by_channel
        (db (snd (on_submit example_env \<lparr>db = example_database, log = []\<rparr>
                    \<lparr>i_is_component = False, i_custom_id = None, i_guild = example_guild,
                     i_channel_id = 100, i_user_id = 8, i_user_roles = [1, 50]\<rparr> 100 ''first''))) 100)
     = Some (SText ''closed'', SInt 8, SText ''first'')
   \<and> map_option (\<lambda>t. (t ''status'', t ''closed_by_user_id'', t ''close_reason''))
     (get_ticket_by_channel
        (db (snd (on_submit example_env
                    (snd (on_submit example_env \<lparr>db = example_database, log = []\<rparr>
                            \<lparr>i_is_component = False, i_custom_id = None, i_guild = example_guild,
                             i_channel_id = 100, i_user_id = 8, i_user_roles = [1, 50]\<rparr> 100 ''first''))
                    \<lparr>i_is_component = False, i_custom_id = None, i_guild = example_guild,
                     i_channel_id = 100, i_user_id = 7, i_user_roles = [1]\<rparr> 100 ''second''))) 100)
     = Some (SText ''closed'', SInt 7, SText ''second'')"
  by (simp add: on_submit_def emit_def get_guild_config_def example_configs
      get_ticket_by_channel_def example_tickets send_transcript_def example_config_def
      guild_config_defaults_def example_env_def update_ticket_def archive_channel_def
      notify_and_archive_def example_guild_def Let_def)

section \<open>The limit of open tickets\<close>

text \<open>
  C7. User 7 has one open ticket in guild 1, whose limit is 1, and presses the button
  of the type \<^verbatim>\<open>billing\<close>. The handler defers, then reads the limit with
  \<^verbatim>\<open>guild_config.get\<close>: it raises \<^verbatim>\<open>AttributeError\<close>. Nothing is written and no
  channel is created, but no limit message is sent either.
\<close>

theorem limit_check_raises_attribute_error:
  "on_interaction loads example_env \<lparr>db = example_database, log = []\<rparr>
     \<lparr>i_is_component = True, i_custom_id = Some ''ticket_panel:create:1:billing'',
      i_guild = example_guild, i_channel_id = 30, i_user_id = 7, i_user_roles = [1]\<rparr>
     = (Some AttributeError, emit Defer \<lparr>db = example_database, log = []\<rparr>)
   \<and> length (get_open_tickets_by_user example_database 1 7) = 1
   \<and> example_config ''ticket_limit_per_user'' = SInt 1"
  using example_type
  by (auto simp add: on_interaction_def index_def split_examples create_flow_def parse_create_def py_int_examples
      emit_def example_guild_def get_guild_config_def example_configs example_config_def
      guild_config_defaults_def row_get_def get_open_tickets_by_user_def example_tickets sql_ne_def
      Let_def)


section \<open>Malformed button ids\<close>

text \<open>
  C8. A component whose id is the bare namespace \<^verbatim>\<open>ticket_panel\<close> has one
  colon-separated segment. The listener reads \<^verbatim>\<open>parts[1]\<close> in the condition of line 53,
  before the \<^verbatim>\<open>try\<close> of line 57: it raises \<^verbatim>\<open>IndexError\<close> and answers nothing.
\<close>

theorem bare_namespace_raises_index_error:
  "on_interaction loads env w (ia\<lparr>i_is_component := True, i_custom_id := Some ''ticket_panel''\<rparr>)
     = (Some IndexError, w)"
  by (simp add: on_interaction_def index_def)

section \<open>A close whose transcript cannot be read\<close>

text \<open>
  Once the transcript step has not raised, which is the case whenever the history can
  be read, \<^verbatim>\<open>on_submit\<close> leaves the ticket closed by the requester: a failed delivery
  of the transcript, a failed notice and a failed change of the channel do not undo it.
\<close>

lemma send_transcript_db: "db (snd (snd (send_transcript env w g c))) = db w"
  by (auto simp: send_transcript_def emit_db split: sum.splits option.splits prod.splits)

lemma archive_channel_db: "db (snd (archive_channel env w g c t cid)) = db w"
  by (auto simp: archive_channel_def emit_db Let_def split: sum.splits option.splits prod.splits sqlval.splits)

lemma column_name_not_channel: "''channel_id'' \<notin> fst ` set (map (\<lambda>(k, v). (column_name k, v)) kw)"
proof -
  have "column_name k \<noteq> ''channel_id''" for k by (cases k) simp_all
  then show ?thesis by (auto simp: image_iff) metis
qed

lemma find_channel_update:
  assumes "\<And>r. g r ''channel_id'' = r ''channel_id''"
  shows "find (\<lambda>r. r ''channel_id'' = SInt cid)
           (map (\<lambda>r. if r ''channel_id'' = SInt cid then g r else r) xs)
         = map_option g (find (\<lambda>r. r ''channel_id'' = SInt cid) xs)"
  using assms by (induction xs) auto

lemma update_ticket_row:
  assumes "get_ticket_by_channel d cid = Some t" and "kw \<noteq> []"
  shows "get_ticket_by_channel (snd (update_ticket d cid kw)) cid
           = Some (assign (map (\<lambda>(k, v). (column_name k, v)) kw) t)"
proof -
  define g where "g = assign (map (\<lambda>(k, v). (column_name k, v)) kw)"
  have keep: "g r ''channel_id'' = r ''channel_id''" for r
    unfolding g_def using assign_other [OF column_name_not_channel, of kw r] by simp
  have "find (\<lambda>r. r ''channel_id'' = SInt cid)
               (map (\<lambda>r. if r ''channel_id'' = SInt cid then g r else r) (tickets d))
             = map_option g (find (\<lambda>r. r ''channel_id'' = SInt cid) (tickets d))"
    using keep by (rule find_channel_update [where g = g])
  from this [unfolded g_def] assms show ?thesis
    by (simp add: update_ticket_def get_ticket_by_channel_def)
qed

lemma update_ticket_case:
  "kw \<noteq> [] \<Longrightarrow>
   (case update_ticket d cid kw of (None, d') \<Rightarrow> A d' | (Some e, d') \<Rightarrow> B e d')
     = A (snd (update_ticket d cid kw))"
  by (simp add: update_ticket_def)

lemma pair_case_db:
  "db (snd (case p of (None, w4) \<Rightarrow> (x, emit a w4) | (Some e, w4) \<Rightarrow> (y, emit b w4)))
     = db (snd p)"
  by (auto simp: emit_db split: prod.splits option.splits)

lemma notify_and_archive_db:
  "db (snd (notify_and_archive env w ia c t cid reason)) = db w"
  by (simp add: notify_and_archive_def pair_case_db archive_channel_db emit_db
      split: option.splits)

lemma on_submit_persists:
  assumes "get_guild_config (db w) (g_id (i_guild ia)) = Some c"
    and "get_ticket_by_channel (db w) cid = Some t"
    and "get_channel (i_guild ia) (SInt cid) = Some ch"
    and "fst (send_transcript env (emit Defer w) (i_guild ia) c) = None"
  shows "\<exists>t'. get_ticket_by_channel (db (snd (on_submit env w ia cid reason))) cid = Some t'
           \<and> t' ''status'' = SText ''closed'' \<and> t' ''closed_by_user_id'' = SInt (i_user_id ia)"
proof -
  obtain link w1 where st: "send_transcript env (emit Defer w) (i_guild ia) c = (None, link, w1)"
    using assms(4) by (cases "send_transcript env (emit Defer w) (i_guild ia) c") auto
  have w1: "db w1 = db w" using send_transcript_db [of env "emit Defer w" "i_guild ia" c] st
    by (simp add: emit_db)
  define r where "r = (if reason = [] then ''No reason provided.'' else reason)"
  define kw where "kw = [(Status, SText ''closed''), (Closed_by_user_id, SInt (i_user_id ia)),
              (Closed_at, SText (now env)), (Close_reason, SText r),
              (Transcript_message_id, link)]"
  have up: "update_ticket (db w1) cid kw = (None, snd (update_ticket (db w1) cid kw))"
    by (simp add: update_ticket_def kw_def)
  have row: "get_ticket_by_channel (snd (update_ticket (db w1) cid kw)) cid
      = Some (assign (map (\<lambda>(k, v). (column_name k, v)) kw) t)"
    using assms(2) w1 by (intro update_ticket_row) (simp_all add: kw_def)
  have "on_submit env w ia cid reason
      = notify_and_archive env (w1\<lparr>db := snd (update_ticket (db w1) cid kw)\<rparr>) ia c t cid r"
    using assms(1-3) st
    by (simp add: on_submit_def Let_def emit_db kw_def r_def update_ticket_case
        del: get_channel.simps)
  then have d: "db (snd (on_submit env w ia cid reason)) = snd (update_ticket (db w1) cid kw)"
    by (simp add: notify_and_archive_db)
  show ?thesis unfolding d row by (simp add: kw_def)
qed

lemma send_transcript_raises_only_history:
  "history_result env = None \<Longrightarrow> fst (send_transcript env w g c) = None"
  by (auto simp: send_transcript_def split: option.splits sum.splits)

text \<open>
  C9. A staff member submits the close form for ticket 1; the guild has a transcript
  channel, and reading the history of the ticket channel fails with \<^verbatim>\<open>Forbidden\<close>. The
  exception leaves \<^verbatim>\<open>on_submit\<close> before \<^verbatim>\<open>update_ticket\<close> is called: the ticket is
  still open.
\<close>

theorem history_failure_leaves_ticket_open:
  "fst (on_submit (example_env\<lparr>history_result := Some Forbidden\<rparr>)
          \<lparr>db = example_database, log = []\<rparr>
          \<lparr>i_is_component = False, i_custom_id = None, i_guild = example_guild,
           i_channel_id = 100, i_user_id = 8, i_user_roles = [1, 50]\<rparr> 100 ''resolved'')
     = Some Forbidden
   \<and> map_option (\<lambda>t. t ''status'')
     (get_ticket_by_channel
        (db (snd (on_submit (example_env\<lparr>history_result := Some Forbidden\<rparr>)
                    \<lparr>db = example_database, log = []\<rparr>
                    \<lparr>i_is_component = False, i_custom_id = None, i_guild = example_guild,
                     i_channel_id = 100, i_user_id = 8, i_user_roles = [1, 50]\<rparr> 100 ''resolved''))) 100)
     = Some (SText ''open'')"
  by (simp add: on_submit_def emit_def get_guild_config_def example_configs
      get_ticket_by_channel_def example_tickets send_transcript_def example_config_def
      guild_config_defaults_def example_env_def example_guild_def Let_def)


end
